theory Spec2Isabelle
  imports Complex_Main
begin

section \<open>The test-session store (src/new/dyscalculia-ai/src/store/testStore.ts)\<close>

text \<open>
  The store is a zustand store: a state object and actions that call \<open>set\<close> with a
  partial object, which is merged field by field into the state. Each action is modelled
  as a function from the state to the new state. The two places where the source reads
  the clock (\<open>Date.now()\<close>) take the reading as an argument \<open>now\<close>.

  JavaScript numbers: timestamps, counts and indices are integers far below \<open>2^53\<close> and
  are modelled as \<open>int\<close> or \<open>nat\<close>; quotients (averages, percentages) are modelled as
  exact rationals, so the rounding of IEEE-754 division is not part of the model.
\<close>

subsection \<open>Data model\<close>

datatype AgeGroup = Age_5_6 | Age_7_8 | Age_9_10

datatype TestType = number_comparison | mental_arithmetic | memory_recall

datatype RiskLevel = low | medium | high

record Question =
  questionId :: string
  testType :: TestType
  story :: string
  visualObject :: string
  leftValue :: "int option"
  rightValue :: "int option"
  memorySequence :: "string list option"
  options :: "string list"
  correctAnswer :: string
  emoji :: "string option"
  left_emoji :: "string option"
  right_emoji :: "string option"
  left_label :: "string option"
  right_label :: "string option"

record Answer =
  questionId :: string
  selectedAnswer :: string
  responseTimeMs :: int
  answerChanges :: int
  correct :: bool

record TestResult =
  testType :: TestType
  totalQuestions :: nat
  correctAnswers :: nat
  avgResponseTime :: rat
  answers :: "Answer list"

record RiskAssessment =
  riskLevel :: RiskLevel
  confidence :: rat
  explanation :: string
  recommendations :: "string list"

record TestStore =
  sessionId :: "string option"
  ageGroup :: "AgeGroup option"
  currentTestType :: "TestType option"
  questions :: "Question list"
  currentQuestionIndex :: nat
  answers :: "Answer list"
  testResults :: "TestResult list"
  riskAssessment :: "RiskAssessment option"
  questionStartTime :: "int option"

subsection \<open>Initial state and actions\<close>

definition initialState :: TestStore where
  "initialState =
     \<lparr> sessionId = None, ageGroup = None, currentTestType = None, questions = [],
       currentQuestionIndex = 0, answers = [], testResults = [], riskAssessment = None,
       questionStartTime = None \<rparr>"

definition setSessionId :: "string \<Rightarrow> TestStore \<Rightarrow> TestStore" where
  "setSessionId ident s =
     s\<lparr> sessionId := Some ident, currentTestType := None, questions := [],
        currentQuestionIndex := 0, TestStore.answers := [], testResults := [],
        riskAssessment := None, questionStartTime := None \<rparr>"

definition setAgeGroup :: "AgeGroup \<Rightarrow> TestStore \<Rightarrow> TestStore" where
  "setAgeGroup age s = s\<lparr> ageGroup := Some age \<rparr>"

definition startTest :: "TestType \<Rightarrow> Question list \<Rightarrow> int \<Rightarrow> TestStore \<Rightarrow> TestStore" where
  "startTest tt qs now s =
     s\<lparr> currentTestType := Some tt, questions := qs, currentQuestionIndex := 0,
        TestStore.answers := [], questionStartTime := Some now \<rparr>"

text \<open>
  \<open>questions[currentQuestionIndex]\<close>: a JavaScript array read out of range gives
  \<open>undefined\<close>, here \<open>None\<close>.
\<close>

definition questionAt :: "Question list \<Rightarrow> nat \<Rightarrow> Question option" where
  "questionAt qs i = (if i < length qs then Some (qs ! i) else None)"

text \<open>
  \<open>if (!currentQuestion || !questionStartTime) return;\<close> The first test fails only
  for \<open>undefined\<close> (an object is truthy). The second is a truthiness test on a
  \<open>number | null\<close>: it holds for \<open>null\<close> and also for the number \<open>0\<close>. The second
  parameter \<open>answerChanges\<close> defaults to \<open>0\<close>: a call without it is a call with \<open>0\<close>.
\<close>

definition submitAnswer :: "string \<Rightarrow> int \<Rightarrow> int \<Rightarrow> TestStore \<Rightarrow> TestStore" where
  "submitAnswer answer changes now s =
     (case questionAt (questions s) (currentQuestionIndex s) of
        None \<Rightarrow> s
      | Some currentQuestion \<Rightarrow>
          (case questionStartTime s of
             None \<Rightarrow> s
           | Some start \<Rightarrow>
               if start = 0 then s
               else
                 let responseTime = now - start;
                     isCorrect = (answer = correctAnswer currentQuestion);
                     newAnswer = \<lparr> questionId = Question.questionId currentQuestion,
                                   selectedAnswer = answer,
                                   responseTimeMs = responseTime,
                                   answerChanges = changes,
                                   correct = isCorrect \<rparr>
                 in s\<lparr> TestStore.answers := TestStore.answers s @ [newAnswer] \<rparr>))"

definition nextQuestion :: "int \<Rightarrow> TestStore \<Rightarrow> TestStore" where
  "nextQuestion now s =
     (if int (currentQuestionIndex s) < int (length (questions s)) - 1
      then s\<lparr> currentQuestionIndex := currentQuestionIndex s + 1,
              questionStartTime := Some now \<rparr>
      else s)"

definition completeTest :: "TestStore \<Rightarrow> TestStore" where
  "completeTest s =
     (case currentTestType s of
        None \<Rightarrow> s
      | Some tt \<Rightarrow>
          let as = TestStore.answers s;
              correctCount = length (filter correct as);
              avgTime = (if length as > 0
                         then rat_of_int (foldl (\<lambda>sum a. sum + responseTimeMs a) 0 as)
                              / rat_of_nat (length as)
                         else 0);
              result = \<lparr> testType = tt,
                         totalQuestions = length (questions s),
                         correctAnswers = correctCount,
                         avgResponseTime = avgTime,
                         answers = as \<rparr>
          in s\<lparr> testResults := testResults s @ [result], currentTestType := None,
                questions := [], currentQuestionIndex := 0, TestStore.answers := [],
                questionStartTime := None \<rparr>)"

definition setRiskAssessment :: "RiskAssessment \<Rightarrow> TestStore \<Rightarrow> TestStore" where
  "setRiskAssessment assessment s = s\<lparr> riskAssessment := Some assessment \<rparr>"

definition resetSession :: "TestStore \<Rightarrow> TestStore" where
  "resetSession s =
     s\<lparr> sessionId := None, ageGroup := None, currentTestType := None, questions := [],
        currentQuestionIndex := 0, TestStore.answers := [], testResults := [],
        riskAssessment := None, questionStartTime := None \<rparr>"

subsection \<open>Computed getters\<close>

definition getCurrentQuestion :: "TestStore \<Rightarrow> Question option" where
  "getCurrentQuestion s = questionAt (questions s) (currentQuestionIndex s)"

definition getProgress :: "TestStore \<Rightarrow> rat" where
  "getProgress s =
     (if length (questions s) = 0 then 0
      else (rat_of_nat (currentQuestionIndex s + 1) / rat_of_nat (length (questions s))) * 100)"

definition isTestComplete :: "TestStore \<Rightarrow> bool" where
  "isTestComplete s =
     (length (questions s) > 0 \<and> length (TestStore.answers s) = length (questions s))"

section \<open>Sequences of store calls\<close>

text \<open>
  The callers (the test pages) drive the store by calling its actions one after another.
  A call is a value of \<open>Op\<close>, carrying the call's arguments and, for the actions that
  read the clock, the clock reading; \<open>run\<close> performs a list of calls from left to right.
\<close>

datatype Op =
    SetSessionId string
  | SetAgeGroup AgeGroup
  | StartTest TestType "Question list" int
  | SubmitAnswer string int int
  | NextQuestion int
  | CompleteTest
  | SetRiskAssessment RiskAssessment
  | ResetSession

fun exec :: "Op \<Rightarrow> TestStore \<Rightarrow> TestStore" where
  "exec (SetSessionId ident) s = setSessionId ident s"
| "exec (SetAgeGroup age) s = setAgeGroup age s"
| "exec (StartTest tt qs now) s = startTest tt qs now s"
| "exec (SubmitAnswer answer changes now) s = submitAnswer answer changes now s"
| "exec (NextQuestion now) s = nextQuestion now s"
| "exec CompleteTest s = completeTest s"
| "exec (SetRiskAssessment assessment) s = setRiskAssessment assessment s"
| "exec ResetSession s = resetSession s"

fun run :: "Op list \<Rightarrow> TestStore \<Rightarrow> TestStore" where
  "run [] s = s"
| "run (c # cs) s = run cs (exec c s)"

text \<open>The calls a page makes between \<open>startTest\<close> and \<open>completeTest\<close>.\<close>

fun inTestOp :: "Op \<Rightarrow> bool" where
  "inTestOp (SubmitAnswer answer changes now) = True"
| "inTestOp (NextQuestion now) = True"
| "inTestOp c = False"

fun isNextQuestion :: "Op \<Rightarrow> bool" where
  "isNextQuestion (NextQuestion now) = True"
| "isNextQuestion c = False"

text \<open>
  One test module as a page runs it: \<open>startTest\<close>, then the in-test calls, then
  \<open>completeTest\<close>.
\<close>

type_synonym Module = "TestType \<times> Question list \<times> int \<times> Op list"

fun moduleOps :: "Module \<Rightarrow> Op list" where
  "moduleOps (tt, qs, now, cs) = StartTest tt qs now # cs @ [CompleteTest]"

fun moduleInTestOps :: "Module \<Rightarrow> Op list" where
  "moduleInTestOps (tt, qs, now, cs) = cs"

text \<open>
  One \<open>submitAnswer\<close> call per question in order, as the pages do it: answer the
  current question, then advance. The list holds, per question, the answer given and
  the clock readings of the two calls.
\<close>

fun answerInOrder :: "(string \<times> int \<times> int) list \<Rightarrow> Op list" where
  "answerInOrder [] = []"
| "answerInOrder ((answer, t_submit, t_next) # rest) =
     SubmitAnswer answer 0 t_submit # NextQuestion t_next # answerInOrder rest"

section \<open>The parent dashboard's statistics (ParentDashboard)\<close>

text \<open>
  The dashboard component computes its figures from the store's \<open>testResults\<close>, or
  from a fixed demo list when there are none and the demo is switched on.
\<close>

definition demoResults :: "TestResult list" where
  "demoResults =
     [\<lparr> testType = number_comparison, totalQuestions = 5, correctAnswers = 4,
         avgResponseTime = 4500, answers = [] \<rparr>,
      \<lparr> testType = mental_arithmetic, totalQuestions = 5, correctAnswers = 3,
         avgResponseTime = 6200, answers = [] \<rparr>,
      \<lparr> testType = memory_recall, totalQuestions = 5, correctAnswers = 4,
         avgResponseTime = 5100, answers = [] \<rparr>]"

definition results :: "TestResult list \<Rightarrow> bool \<Rightarrow> TestResult list" where
  "results trs showDemo =
     (let hasResults = length trs > 0
      in if hasResults then trs else if showDemo then demoResults else [])"

definition totalQuestions_sum :: "TestResult list \<Rightarrow> nat" where
  "totalQuestions_sum rs = foldl (\<lambda>sum r. sum + totalQuestions r) 0 rs"

definition totalCorrect :: "TestResult list \<Rightarrow> nat" where
  "totalCorrect rs = foldl (\<lambda>sum r. sum + correctAnswers r) 0 rs"

definition overallAccuracy :: "TestResult list \<Rightarrow> rat" where
  "overallAccuracy rs =
     (if totalQuestions_sum rs > 0
      then (rat_of_nat (totalCorrect rs) / rat_of_nat (totalQuestions_sum rs)) * 100
      else 0)"

text \<open>The displayed average, in seconds.\<close>

definition avgTime :: "TestResult list \<Rightarrow> rat" where
  "avgTime rs =
     (if length rs > 0
      then foldl (\<lambda>sum r. sum + avgResponseTime r) 0 rs / rat_of_nat (length rs) / 1000
      else 0)"

text \<open>
  The \<open>avg_response_time\<close> feature sent to the risk service, in milliseconds.
  \<open>calculateRisk\<close> returns before computing it unless there are results, no assessment
  yet and no calculation under way; \<open>None\<close> is that early return.
\<close>

definition calculateRisk_avgResponseTime ::
  "TestResult list \<Rightarrow> bool \<Rightarrow> RiskAssessment option \<Rightarrow> bool \<Rightarrow> rat option" where
  "calculateRisk_avgResponseTime trs showDemo assessment isCalculating =
     (let hasResults = length trs > 0; rs = results trs showDemo
      in if \<not> hasResults \<or> assessment \<noteq> None \<or> isCalculating then None
         else Some (foldl (\<lambda>sum r. sum + avgResponseTime r) 0 rs / rat_of_nat (length rs)))"

definition allAnswers :: "TestResult list \<Rightarrow> Answer list" where
  "allAnswers trs = concat (map TestResult.answers trs)"

text \<open>
  For comparison only, following the spec's words and not the source: the mean of
  \<open>responseTimeMs\<close> over all individual answers of all modules.
\<close>

definition meanOverAllAnswers :: "TestResult list \<Rightarrow> rat" where
  "meanOverAllAnswers trs =
     rat_of_int (sum_list (map responseTimeMs (allAnswers trs)))
       / rat_of_nat (length (allAnswers trs))"

section \<open>Example data\<close>

text \<open>
  A question with the given identifier and correct answer, shaped like the entries of
  the pages' \<open>fallbackQuestions\<close> (the narrative and the pictures are left empty).
\<close>

definition sampleQuestion :: "string \<Rightarrow> string \<Rightarrow> Question" where
  "sampleQuestion qid ans =
     \<lparr> Question.questionId = qid, Question.testType = mental_arithmetic, story = [],
       visualObject = [], leftValue = None, rightValue = None, memorySequence = None,
       options = [ans], correctAnswer = ans, emoji = None, left_emoji = None,
       right_emoji = None, left_label = None, right_label = None \<rparr>"

definition ma_1 :: Question where
  "ma_1 = (sampleQuestion ''ma_1'' ''7'')
            \<lparr> leftValue := Some 3, rightValue := Some 4, options := [''5'', ''6'', ''7'', ''8''] \<rparr>"

definition ma_2 :: Question where
  "ma_2 = (sampleQuestion ''ma_2'' ''5'')
            \<lparr> leftValue := Some 8, rightValue := Some 3, options := [''4'', ''5'', ''6'', ''7''] \<rparr>"

text \<open>A question whose correct answer is a word.\<close>

definition nc_1 :: Question where
  "nc_1 = (sampleQuestion ''nc_1'' ''Left'') \<lparr> Question.testType := number_comparison,
             leftValue := Some 5, rightValue := Some 3, options := [''Left'', ''Right''] \<rparr>"

text \<open>
  Two modules with unequal answer counts: one question answered after 1000 ms, then
  two questions answered after 2000 ms and 3000 ms.
\<close>

definition twoModules :: "Module list" where
  "twoModules =
     [(number_comparison, [ma_1], 10000, [SubmitAnswer ''7'' 0 11000]),
      (mental_arithmetic, [ma_1, ma_2], 20000,
         [SubmitAnswer ''7'' 0 22000, NextQuestion 30000, SubmitAnswer ''4'' 1 33000])]"

text \<open>A session up to the last question of a two-question test.\<close>

definition sampleOps :: "Op list" where
  "sampleOps =
     [SetSessionId ''abc'', SetAgeGroup Age_7_8,
      StartTest mental_arithmetic [ma_1, ma_2] 1000, SubmitAnswer ''7'' 0 1500,
      NextQuestion 2000, NextQuestion 2500]"

section \<open>Auxiliary predicates\<close>

text \<open>The cursor is in range: \<open>0\<close> on an empty question list, a valid index otherwise.\<close>

definition cursorInRange :: "TestStore \<Rightarrow> bool" where
  "cursorInRange s =
     (if questions s = [] then currentQuestionIndex s = 0
      else currentQuestionIndex s < length (questions s))"

text \<open>Which calls are \<open>submitAnswer\<close> calls, and which calls read a clock that is not \<open>0\<close>.\<close>

fun isSubmitAnswer :: "Op \<Rightarrow> bool" where
  "isSubmitAnswer (SubmitAnswer answer changes now) = True"
| "isSubmitAnswer c = False"

fun clockNonzero :: "Op \<Rightarrow> bool" where
  "clockNonzero (NextQuestion now) = (now \<noteq> 0)"
| "clockNonzero (StartTest tt qs now) = (now \<noteq> 0)"
| "clockNonzero c = True"

text \<open>
  A question is being presented and \<open>submitAnswer\<close>'s guard lets a submission through:
  the cursor is on a question and the start time is a non-zero number.
\<close>

definition answering :: "TestStore \<Rightarrow> bool" where
  "answering s =
     (currentQuestionIndex s < length (questions s)
      \<and> (case questionStartTime s of None \<Rightarrow> False | Some start \<Rightarrow> start \<noteq> 0))"

text \<open>The recorded start time, if any, is not the number \<open>0\<close>.\<close>

definition startNonzero :: "TestStore \<Rightarrow> bool" where
  "startNonzero s = (case questionStartTime s of None \<Rightarrow> True | Some start \<Rightarrow> start \<noteq> 0)"

text \<open>The results the store holds after the two example modules.\<close>

definition twoModulesResults :: "TestResult list" where
  "twoModulesResults = testResults (run (concat (map moduleOps twoModules)) initialState)"

section \<open>Facts about single actions\<close>

lemma questionAt_Some_iff: "questionAt qs i = Some q \<longleftrightarrow> i < length qs \<and> q = qs ! i"
  by (auto simp: questionAt_def)

lemma questionAt_None_iff: "questionAt qs i = None \<longleftrightarrow> length qs \<le> i"
  by (auto simp: questionAt_def)

lemma submitAnswer_records:
  assumes "questionAt (questions s) (currentQuestionIndex s) = Some q"
    and "questionStartTime s = Some start" and "start \<noteq> 0"
  shows "submitAnswer answer changes now s =
           s\<lparr> TestStore.answers := TestStore.answers s @
                [\<lparr> questionId = Question.questionId q, selectedAnswer = answer,
                   responseTimeMs = now - start, answerChanges = changes,
                   correct = (answer = correctAnswer q) \<rparr>] \<rparr>"
  using assms by (simp add: submitAnswer_def)

lemma submitAnswer_cases:
  "submitAnswer answer changes now s = s
   \<or> (\<exists>q start. questionAt (questions s) (currentQuestionIndex s) = Some q
        \<and> questionStartTime s = Some start \<and> start \<noteq> 0
        \<and> submitAnswer answer changes now s =
              s\<lparr> TestStore.answers := TestStore.answers s @
                   [\<lparr> questionId = Question.questionId q, selectedAnswer = answer,
                      responseTimeMs = now - start, answerChanges = changes,
                      correct = (answer = correctAnswer q) \<rparr>] \<rparr>)"
  by (simp add: submitAnswer_def split: option.splits)

lemma foldl_plus_sum_list:
  fixes z :: "'b::comm_monoid_add"
  shows "foldl (\<lambda>sum a. sum + f a) z xs = z + sum_list (map f xs)"
  by (induction xs arbitrary: z) (simp_all add: add.assoc)

lemma completeTest_Some:
  assumes "currentTestType s = Some tt"
  shows "completeTest s =
           s\<lparr> testResults := testResults s @
                [\<lparr> testType = tt, totalQuestions = length (questions s),
                   correctAnswers = length (filter correct (TestStore.answers s)),
                   avgResponseTime =
                     (if TestStore.answers s = [] then 0
                      else rat_of_int (sum_list (map responseTimeMs (TestStore.answers s)))
                           / rat_of_nat (length (TestStore.answers s))),
                   answers = TestStore.answers s \<rparr>],
              currentTestType := None, questions := [], currentQuestionIndex := 0,
              TestStore.answers := [], questionStartTime := None \<rparr>"
  using assms by (simp add: completeTest_def Let_def foldl_plus_sum_list)

section \<open>Facts about sequences of calls\<close>

lemma run_append: "run (cs @ ds) s = run ds (run cs s)"
  by (induction cs arbitrary: s) simp_all

lemma inTestOp_cases:
  assumes "inTestOp c"
  obtains answer changes now where "c = SubmitAnswer answer changes now"
        | now where "c = NextQuestion now"
  using assms by (cases c) simp_all

lemma submitAnswer_keeps:
  "currentTestType (submitAnswer answer changes now s) = currentTestType s"
  "testResults (submitAnswer answer changes now s) = testResults s"
  "questions (submitAnswer answer changes now s) = questions s"
  "currentQuestionIndex (submitAnswer answer changes now s) = currentQuestionIndex s"
  "questionStartTime (submitAnswer answer changes now s) = questionStartTime s"
  by (simp_all add: submitAnswer_def Let_def split: option.splits)

lemma nextQuestion_keeps:
  "currentTestType (nextQuestion now s) = currentTestType s"
  "testResults (nextQuestion now s) = testResults s"
  "questions (nextQuestion now s) = questions s"
  "TestStore.answers (nextQuestion now s) = TestStore.answers s"
  by (simp_all add: nextQuestion_def)

lemma inTestOp_keeps:
  assumes "inTestOp c"
  shows "currentTestType (exec c s) = currentTestType s"
    and "testResults (exec c s) = testResults s"
    and "questions (exec c s) = questions s"
  using assms by (auto elim!: inTestOp_cases simp: submitAnswer_keeps nextQuestion_keeps)

lemma run_inTestOps_keep:
  assumes "\<forall>c\<in>set cs. inTestOp c"
  shows "currentTestType (run cs s) = currentTestType s
         \<and> testResults (run cs s) = testResults s
         \<and> questions (run cs s) = questions s"
  using assms by (induction cs arbitrary: s) (simp_all add: inTestOp_keeps)

lemma run_module:
  assumes "\<forall>c\<in>set cs. inTestOp c"
  shows "\<exists>r. testResults (run (moduleOps (tt, qs, now, cs)) s) = testResults s @ [r]
             \<and> TestResult.testType r = tt"
proof -
  let ?s1 = "run cs (startTest tt qs now s)"
  have "currentTestType ?s1 = Some tt" and "testResults ?s1 = testResults s"
    using run_inTestOps_keep [OF assms, of "startTest tt qs now s"]
    by (simp_all add: startTest_def)
  then show ?thesis
    by (simp add: run_append completeTest_Some)
qed

lemma run_modules:
  assumes "\<forall>m\<in>set ms. \<forall>c\<in>set (moduleInTestOps m). inTestOp c"
  shows "\<exists>new. testResults (run (concat (map moduleOps ms)) s) = testResults s @ new
               \<and> map TestResult.testType new = map fst ms"
  using assms
proof (induction ms arbitrary: s)
  case Nil
  then show ?case by simp
next
  case (Cons m ms)
  obtain tt qs now cs where m: "m = (tt, qs, now, cs)"
    by (cases m) auto
  from Cons.prems m have "\<forall>c\<in>set cs. inTestOp c" by simp
  from run_module [OF this, of tt qs now s]
  obtain r where r: "testResults (run (moduleOps m) s) = testResults s @ [r]"
      "TestResult.testType r = tt"
    unfolding m by blast
  from Cons.prems have "\<forall>m\<in>set ms. \<forall>c\<in>set (moduleInTestOps m). inTestOp c" by simp
  from Cons.IH [OF this, of "run (moduleOps m) s"]
  obtain new where new:
      "testResults (run (concat (map moduleOps ms)) (run (moduleOps m) s))
         = testResults (run (moduleOps m) s) @ new"
      "map TestResult.testType new = map fst ms"
    by blast
  have "testResults (run (concat (map moduleOps (m # ms))) s) = testResults s @ (r # new)"
    using r(1) new(1) by (simp add: run_append del: moduleOps.simps)
  moreover have "map TestResult.testType (r # new) = map fst (m # ms)"
    using r(2) new(2) m by simp
  ultimately show ?case by blast
qed

text \<open>
  At the start time \<open>0\<close> the guard \<open>!questionStartTime\<close> takes the number for a missing
  start time, and \<open>submitAnswer\<close> records nothing. The clock reads \<open>0\<close> only at the first
  millisecond of 1970.
\<close>

lemma submitAnswer_at_start_time_zero:
  "getCurrentQuestion (startTest mental_arithmetic [ma_1] 0 initialState) = Some ma_1
   \<and> questionStartTime (startTest mental_arithmetic [ma_1] 0 initialState) = Some 0
   \<and> submitAnswer ''7'' 0 1500 (startTest mental_arithmetic [ma_1] 0 initialState)
       = startTest mental_arithmetic [ma_1] 0 initialState"
  by (simp add: submitAnswer_def startTest_def initialState_def getCurrentQuestion_def
      questionAt_def)

section \<open>The start time is never zero\<close>

lemma startNonzero_exec:
  assumes "startNonzero s" and "clockNonzero c"
  shows "startNonzero (exec c s)"
proof (cases c)
  case (SubmitAnswer answer changes now)
  with assms show ?thesis
    by (simp add: startNonzero_def submitAnswer_keeps)
next
  case (NextQuestion now)
  with assms show ?thesis
    by (simp add: startNonzero_def nextQuestion_def)
next
  case CompleteTest
  with assms show ?thesis
    by (simp add: startNonzero_def completeTest_def Let_def split: option.splits)
next
  case (StartTest tt qs now)
  with assms show ?thesis
    by (simp add: startNonzero_def startTest_def)
qed (simp_all add: startNonzero_def setSessionId_def setAgeGroup_def
      setRiskAssessment_def resetSession_def assms(1) [unfolded startNonzero_def])

lemma startNonzero_run:
  assumes "startNonzero s" and "list_all clockNonzero cs"
  shows "startNonzero (run cs s)"
  using assms by (induction cs arbitrary: s) (simp_all add: startNonzero_exec)

lemma startNonzero_reachable:
  assumes "list_all clockNonzero cs"
  shows "startNonzero (run cs initialState)"
  by (rule startNonzero_run [OF _ assms]) (simp add: startNonzero_def initialState_def)

section \<open>The cursor stays in range\<close>

lemma cursorInRange_exec:
  assumes "cursorInRange s"
  shows "cursorInRange (exec c s)"
proof (cases c)
  case (SubmitAnswer answer changes now)
  with assms show ?thesis
    by (simp add: cursorInRange_def submitAnswer_keeps)
next
  case (NextQuestion now)
  with assms show ?thesis
    by (auto simp: cursorInRange_def nextQuestion_def)
next
  case CompleteTest
  with assms show ?thesis
    by (simp add: cursorInRange_def completeTest_def Let_def split: option.splits)
qed (simp_all add: cursorInRange_def setSessionId_def setAgeGroup_def startTest_def
      setRiskAssessment_def resetSession_def assms [unfolded cursorInRange_def])

lemma cursorInRange_run:
  assumes "cursorInRange s"
  shows "cursorInRange (run cs s)"
  using assms by (induction cs arbitrary: s) (simp_all add: cursorInRange_exec)

lemma cursorInRange_initialState: "cursorInRange initialState"
  by (simp add: cursorInRange_def initialState_def)

lemma cursorInRange_reachable: "cursorInRange (run cs initialState)"
  by (rule cursorInRange_run [OF cursorInRange_initialState])

lemma getProgress_bounds:
  assumes "currentQuestionIndex s < length (questions s)"
  shows "0 < getProgress s" and "getProgress s \<le> 100"
proof -
  let ?i = "currentQuestionIndex s" and ?k = "length (questions s)"
  define x where "x = rat_of_nat (?i + 1) / rat_of_nat ?k"
  from assms have k: "0 < ?k" by auto
  then have kpos: "0 < rat_of_nat ?k"
    by (simp only: of_nat_0_less_iff)
  have gp: "getProgress s = x * 100"
    using k by (simp add: getProgress_def x_def)
  have ipos: "0 < rat_of_nat (?i + 1)"
    by (subst of_nat_0_less_iff) simp
  have le: "rat_of_nat (?i + 1) \<le> rat_of_nat ?k"
    using assms by (subst of_nat_le_iff) simp
  have "0 < x"
    unfolding x_def using ipos kpos by (rule divide_pos_pos)
  then show "0 < getProgress s"
    by (simp add: gp)
  have "x \<le> 1"
    unfolding x_def using le kpos by (simp only: divide_le_eq_1_pos)
  then show "getProgress s \<le> 100"
    by (simp add: gp)
qed

lemma run_inTestOps_index:
  assumes "\<forall>c\<in>set cs. inTestOp c"
    and "currentQuestionIndex s + length (filter isNextQuestion cs) < length (questions s)"
  shows "currentQuestionIndex (run cs s)
           = currentQuestionIndex s + length (filter isNextQuestion cs)"
  using assms
proof (induction cs arbitrary: s)
  case Nil
  then show ?case by simp
next
  case (Cons c cs)
  from Cons.prems(1) have c: "inTestOp c" and cs: "\<forall>c\<in>set cs. inTestOp c"
    by simp_all
  from c show ?case
  proof (cases rule: inTestOp_cases)
    case (1 answer changes now)
    with Cons.prems(2) Cons.IH [OF cs, of "exec c s"] show ?thesis
      by (simp add: submitAnswer_keeps)
  next
    case (2 now)
    with Cons.prems(2) have adv: "int (currentQuestionIndex s) < int (length (questions s)) - 1"
      by simp
    with 2 Cons.prems(2) Cons.IH [OF cs, of "exec c s"] show ?thesis
      by (simp add: nextQuestion_def)
  qed
qed

section \<open>Counting submissions\<close>

text \<open>
  Between \<open>startTest\<close> and \<open>completeTest\<close>, as long as no clock reading is \<open>0\<close>, every
  \<open>submitAnswer\<close> call records one answer, so the test is complete exactly when the
  number of \<open>submitAnswer\<close> calls equals the number of questions.
\<close>

lemma answering_submitAnswer:
  assumes "answering s"
  shows "answering (submitAnswer answer changes now s)"
    and "length (TestStore.answers (submitAnswer answer changes now s))
           = Suc (length (TestStore.answers s))"
  using assms
  by (auto simp: answering_def submitAnswer_def questionAt_def Let_def split: option.splits)

lemma answering_nextQuestion:
  assumes "answering s" and "now \<noteq> 0"
  shows "answering (nextQuestion now s)"
  using assms by (auto simp: answering_def nextQuestion_def split: option.splits)

lemma run_counts_submits:
  assumes "\<forall>c\<in>set cs. inTestOp c" and "\<forall>c\<in>set cs. clockNonzero c" and "answering s"
  shows "length (TestStore.answers (run cs s))
           = length (TestStore.answers s) + length (filter isSubmitAnswer cs)"
  using assms
proof (induction cs arbitrary: s)
  case Nil
  then show ?case by simp
next
  case (Cons c cs)
  from Cons.prems have c: "inTestOp c" and cs: "\<forall>c\<in>set cs. inTestOp c"
    and nz: "clockNonzero c" and nzs: "\<forall>c\<in>set cs. clockNonzero c"
    by simp_all
  from c show ?case
  proof (cases rule: inTestOp_cases)
    case (1 answer changes now)
    with Cons.IH [OF cs nzs, of "exec c s"] answering_submitAnswer [OF Cons.prems(3)]
    show ?thesis by simp
  next
    case (2 now)
    with nz have "answering (exec c s)"
      using answering_nextQuestion [OF Cons.prems(3)] by simp
    with 2 Cons.IH [OF cs nzs, of "exec c s"] show ?thesis
      by (simp add: nextQuestion_keeps)
  qed
qed

lemma isTestComplete_counts_submits:
  assumes "\<forall>c\<in>set cs. inTestOp c" and "\<forall>c\<in>set cs. clockNonzero c"
    and "qs \<noteq> []" and "t0 \<noteq> 0"
  shows "isTestComplete (run cs (startTest tt qs t0 s))
           \<longleftrightarrow> length (filter isSubmitAnswer cs) = length qs"
proof -
  let ?s0 = "startTest tt qs t0 s"
  have "answering ?s0"
    using assms(3,4) by (simp add: answering_def startTest_def)
  from run_counts_submits [OF assms(1,2) this]
  have "length (TestStore.answers (run cs ?s0)) = length (filter isSubmitAnswer cs)"
    by (simp add: startTest_def)
  moreover have "questions (run cs ?s0) = qs"
    using run_inTestOps_keep [OF assms(1), of ?s0] by (simp add: startTest_def)
  ultimately show ?thesis
    using assms(3) by (simp add: isTestComplete_def)
qed

lemma answerInOrder_inTestOp: "\<forall>c\<in>set (answerInOrder xs). inTestOp c"
  by (induction xs rule: answerInOrder.induct) simp_all

lemma answerInOrder_clockNonzero:
  assumes "\<forall>(answer, t_submit, t_next)\<in>set xs. t_next \<noteq> 0"
  shows "\<forall>c\<in>set (answerInOrder xs). clockNonzero c"
  using assms by (induction xs rule: answerInOrder.induct) simp_all

lemma answerInOrder_take_submits:
  "length (filter isSubmitAnswer (take n (answerInOrder xs))) = min ((n + 1) div 2) (length xs)"
proof (induction xs arbitrary: n rule: answerInOrder.induct)
  case 1
  then show ?case by simp
next
  case (2 answer t_submit t_next rest)
  show ?case
  proof (cases n)
    case 0
    then show ?thesis by simp
  next
    case (Suc m)
    show ?thesis
    proof (cases m)
      case 0
      with Suc show ?thesis by simp
    next
      case (Suc k)
      with \<open>n = Suc m\<close> "2.IH" [of k] show ?thesis by simp
    qed
  qed
qed

lemma in_order_completion:
  assumes "length xs = length qs" and "qs \<noteq> []" and "t0 \<noteq> 0"
    and "\<forall>(answer, t_submit, t_next)\<in>set xs. t_next \<noteq> 0"
  shows "isTestComplete (run (take n (answerInOrder xs)) (startTest tt qs t0 s))
           \<longleftrightarrow> 2 * length qs - 1 \<le> n"
proof -
  have a: "\<forall>c\<in>set (take n (answerInOrder xs)). inTestOp c"
    using answerInOrder_inTestOp [of xs] by (meson in_set_takeD)
  have b: "\<forall>c\<in>set (take n (answerInOrder xs)). clockNonzero c"
    using answerInOrder_clockNonzero [OF assms(4)] by (meson in_set_takeD)
  have "0 < length qs" using assms(2) by simp
  then have "min ((n + 1) div 2) (length qs) = length qs \<longleftrightarrow> 2 * length qs - 1 \<le> n"
    by (auto simp: min_def)
  then show ?thesis
    using isTestComplete_counts_submits [OF a b assms(2,3), of tt s]
    by (simp add: answerInOrder_take_submits assms(1))
qed

section \<open>Facts about the dashboard's sums\<close>

lemma totals_sum_list:
  "totalQuestions_sum rs = sum_list (map totalQuestions rs)"
  "totalCorrect rs = sum_list (map correctAnswers rs)"
  by (simp_all add: totalQuestions_sum_def totalCorrect_def foldl_plus_sum_list)

lemma twoModulesResults_value:
  "twoModulesResults =
     [\<lparr> testType = number_comparison, totalQuestions = 1, correctAnswers = 1,
         avgResponseTime = 1000,
         answers = [\<lparr> questionId = ''ma_1'', selectedAnswer = ''7'', responseTimeMs = 1000,
                      answerChanges = 0, correct = True \<rparr>] \<rparr>,
      \<lparr> testType = mental_arithmetic, totalQuestions = 2, correctAnswers = 1,
         avgResponseTime = 2500,
         answers = [\<lparr> questionId = ''ma_1'', selectedAnswer = ''7'', responseTimeMs = 2000,
                      answerChanges = 0, correct = True \<rparr>,
                    \<lparr> questionId = ''ma_2'', selectedAnswer = ''4'', responseTimeMs = 3000,
                      answerChanges = 1, correct = False \<rparr>] \<rparr>]"
  by (simp add: twoModulesResults_def twoModules_def initialState_def startTest_def
      submitAnswer_def nextQuestion_def completeTest_def questionAt_def ma_1_def ma_2_def
      sampleQuestion_def Let_def)

section \<open>Session isolation\<close>

text \<open>
  C1. \<open>setSessionId(id)\<close>, in any state, assigns the session identifier and resets
  \<open>currentTestType\<close>, \<open>questions\<close>, \<open>currentQuestionIndex\<close>, \<open>answers\<close>, \<open>testResults\<close>,
  \<open>riskAssessment\<close> and \<open>questionStartTime\<close> to \<open>null\<close>, \<open>[]\<close>, \<open>0\<close>, \<open>[]\<close>, \<open>[]\<close>,
  \<open>null\<close>, \<open>null\<close>, whatever the prior state, and leaves \<open>ageGroup\<close> unchanged.
\<close>

theorem setSessionId_resets:
  "sessionId (setSessionId ident s) = Some ident
   \<and> currentTestType (setSessionId ident s) = None
   \<and> questions (setSessionId ident s) = []
   \<and> currentQuestionIndex (setSessionId ident s) = 0
   \<and> TestStore.answers (setSessionId ident s) = []
   \<and> testResults (setSessionId ident s) = []
   \<and> riskAssessment (setSessionId ident s) = None
   \<and> questionStartTime (setSessionId ident s) = None
   \<and> ageGroup (setSessionId ident s) = ageGroup s"
  by (simp add: setSessionId_def)

section \<open>Recording an answer\<close>

text \<open>
  C2. Whenever there is a current question and a recorded \<open>questionStartTime\<close>,
  \<open>submitAnswer(a, c)\<close> appends exactly one \<open>Answer\<close> at the end of \<open>answers\<close>, with the
  current question's \<open>questionId\<close>, \<open>selectedAnswer = a\<close>, \<open>answerChanges = c\<close> and
  \<open>correct = (a = correctAnswer)\<close> by equality of the two strings as they are, and changes
  no other field, so the cursor does not advance. This holds in every state the store
  reaches from its initial state by any calls whose clock readings are not \<open>0\<close> (the
  clock is \<open>Date.now()\<close>, milliseconds since 1970), and in any state at all whose recorded
  start time is not \<open>0\<close>.
\<close>

theorem submitAnswer_appends:
  "(list_all clockNonzero cs
      \<and> getCurrentQuestion (run cs initialState) = Some q
      \<and> questionStartTime (run cs initialState) = Some start \<longrightarrow>
      submitAnswer answer changes now (run cs initialState) =
        (run cs initialState)
          \<lparr> TestStore.answers := TestStore.answers (run cs initialState) @
               [\<lparr> questionId = Question.questionId q, selectedAnswer = answer,
                  responseTimeMs = now - start, answerChanges = changes,
                  correct = (answer = correctAnswer q) \<rparr>] \<rparr>
      \<and> currentQuestionIndex (submitAnswer answer changes now (run cs initialState))
          = currentQuestionIndex (run cs initialState))
   \<and> (getCurrentQuestion s = Some qa \<and> questionStartTime s = Some starta \<and> starta \<noteq> 0 \<longrightarrow>
        submitAnswer answer changes now s =
          s\<lparr> TestStore.answers := TestStore.answers s @
               [\<lparr> questionId = Question.questionId qa, selectedAnswer = answer,
                  responseTimeMs = now - starta, answerChanges = changes,
                  correct = (answer = correctAnswer qa) \<rparr>] \<rparr>
        \<and> currentQuestionIndex (submitAnswer answer changes now s) = currentQuestionIndex s)"
proof (intro conjI impI)
  assume a: "list_all clockNonzero cs
      \<and> getCurrentQuestion (run cs initialState) = Some q
      \<and> questionStartTime (run cs initialState) = Some start"
  let ?s = "run cs initialState"
  from a startNonzero_reachable [of cs] have nz: "start \<noteq> 0"
    by (simp add: startNonzero_def)
  from a have q: "questionAt (questions ?s) (currentQuestionIndex ?s) = Some q"
    and st: "questionStartTime ?s = Some start"
    by (simp_all add: getCurrentQuestion_def)
  show "submitAnswer answer changes now ?s =
        ?s\<lparr> TestStore.answers := TestStore.answers ?s @
               [\<lparr> questionId = Question.questionId q, selectedAnswer = answer,
                  responseTimeMs = now - start, answerChanges = changes,
                  correct = (answer = correctAnswer q) \<rparr>] \<rparr>"
    by (rule submitAnswer_records [OF q st nz])
  show "currentQuestionIndex (submitAnswer answer changes now ?s) = currentQuestionIndex ?s"
    by (rule submitAnswer_keeps)
next
  assume b: "getCurrentQuestion s = Some qa \<and> questionStartTime s = Some starta \<and> starta \<noteq> 0"
  then have q: "questionAt (questions s) (currentQuestionIndex s) = Some qa"
    and st: "questionStartTime s = Some starta" and nz: "starta \<noteq> 0"
    by (simp_all add: getCurrentQuestion_def)
  show "submitAnswer answer changes now s =
          s\<lparr> TestStore.answers := TestStore.answers s @
               [\<lparr> questionId = Question.questionId qa, selectedAnswer = answer,
                  responseTimeMs = now - starta, answerChanges = changes,
                  correct = (answer = correctAnswer qa) \<rparr>] \<rparr>"
    by (rule submitAnswer_records [OF q st nz])
  show "currentQuestionIndex (submitAnswer answer changes now s) = currentQuestionIndex s"
    by (rule submitAnswer_keeps)
qed

theorem submitAnswer_appends_witness:
  "list_all clockNonzero sampleOps
   \<and> getCurrentQuestion (run sampleOps initialState) = Some ma_2
   \<and> questionStartTime (run sampleOps initialState) = Some 2000
   \<and> TestStore.answers (submitAnswer ''5'' 2 2700 (run sampleOps initialState))
       = TestStore.answers (run sampleOps initialState)
         @ [\<lparr> questionId = ''ma_2'', selectedAnswer = ''5'', responseTimeMs = 700,
               answerChanges = 2, correct = True \<rparr>]
   \<and> currentQuestionIndex (submitAnswer ''5'' 2 2700 (run sampleOps initialState)) = 1
   \<and> getCurrentQuestion (startTest number_comparison [nc_1] 1000 initialState) = Some nc_1
   \<and> map correct (TestStore.answers
         (submitAnswer ''Left'' 0 1500 (startTest number_comparison [nc_1] 1000 initialState)))
       = [True]
   \<and> map correct (TestStore.answers
         (submitAnswer ''left'' 0 1500 (startTest number_comparison [nc_1] 1000 initialState)))
       = [False]
   \<and> map correct (TestStore.answers
         (submitAnswer '' Left'' 0 1500 (startTest number_comparison [nc_1] 1000 initialState)))
       = [False]"
proof -
  let ?s = "run sampleOps initialState"
  let ?n = "startTest number_comparison [nc_1] 1000 initialState"
  have h1: "list_all clockNonzero sampleOps"
    by (simp add: sampleOps_def)
  have i: "currentQuestionIndex ?s = 1" and qs: "questions ?s = [ma_1, ma_2]"
    and h3: "questionStartTime ?s = Some 2000"
    by (simp_all add: sampleOps_def submitAnswer_keeps nextQuestion_def startTest_def
        setAgeGroup_def setSessionId_def)
  from i qs have h2: "getCurrentQuestion ?s = Some ma_2"
    by (simp add: getCurrentQuestion_def questionAt_def)
  have m: "Question.questionId ma_2 = ''ma_2''" "correctAnswer ma_2 = ''5''"
    by (simp_all add: ma_2_def sampleQuestion_def)
  have n: "getCurrentQuestion ?n = Some nc_1" "questionStartTime ?n = Some 1000"
      "TestStore.answers ?n = []" "correctAnswer nc_1 = ''Left''"
    by (simp_all add: getCurrentQuestion_def questionAt_def startTest_def nc_1_def
        sampleQuestion_def)
  from h1 h2 h3 i m n
    submitAnswer_appends [where cs = sampleOps and q = ma_2 and start = 2000
      and answer = "''5''" and changes = 2 and now = 2700
      and s = ?n and qa = nc_1 and starta = 1000]
    submitAnswer_appends [where cs = sampleOps and q = ma_2 and start = 2000
      and answer = "''Left''" and changes = 0 and now = 1500
      and s = ?n and qa = nc_1 and starta = 1000]
    submitAnswer_appends [where cs = sampleOps and q = ma_2 and start = 2000
      and answer = "''left''" and changes = 0 and now = 1500
      and s = ?n and qa = nc_1 and starta = 1000]
    submitAnswer_appends [where cs = sampleOps and q = ma_2 and start = 2000
      and answer = "'' Left''" and changes = 0 and now = 1500
      and s = ?n and qa = nc_1 and starta = 1000]
  show ?thesis by simp
qed

text \<open>
  C3 as the spec states it is false: with the clock reading at submission earlier than
  the recorded start time, the recorded \<open>responseTimeMs\<close> is negative (here \<open>-50\<close>);
  nothing clamps it.
\<close>

theorem submitAnswer_negative_responseTime:
  "map responseTimeMs
     (TestStore.answers
        (submitAnswer ''7'' 0 50 (startTest mental_arithmetic [ma_1] 100 initialState)))
   = [- 50]
   \<and> \<not> 0 \<le> responseTimeMs (last (TestStore.answers
         (submitAnswer ''7'' 0 50 (startTest mental_arithmetic [ma_1] 100 initialState))))"
  by (simp add: submitAnswer_def startTest_def initialState_def questionAt_def)

text \<open>
  C3, amended. Whenever \<open>submitAnswer\<close> records an answer, the recorded
  \<open>responseTimeMs\<close> is exactly the clock reading minus \<open>questionStartTime\<close>, unclamped;
  it is non-negative exactly when the clock reading is not earlier than the start time.
\<close>

theorem submitAnswer_responseTime:
  assumes "TestStore.answers (submitAnswer answer changes now s) \<noteq> TestStore.answers s"
  shows "\<exists>start. questionStartTime s = Some start
           \<and> responseTimeMs (last (TestStore.answers (submitAnswer answer changes now s)))
               = now - start
           \<and> (0 \<le> responseTimeMs (last (TestStore.answers (submitAnswer answer changes now s)))
                \<longleftrightarrow> start \<le> now)"
  using assms by (auto simp: submitAnswer_def Let_def split: option.splits if_splits)

theorem submitAnswer_responseTime_witness:
  "TestStore.answers
     (submitAnswer ''7'' 0 50 (startTest mental_arithmetic [ma_1] 100 initialState))
     \<noteq> TestStore.answers (startTest mental_arithmetic [ma_1] 100 initialState)
   \<and> responseTimeMs (last (TestStore.answers
         (submitAnswer ''7'' 0 50 (startTest mental_arithmetic [ma_1] 100 initialState))))
       = 50 - 100
   \<and> responseTimeMs (last (TestStore.answers
         (submitAnswer ''7'' 0 1500 (startTest mental_arithmetic [ma_1] 100 initialState))))
       = 1500 - 100"
proof -
  let ?s = "startTest mental_arithmetic [ma_1] 100 initialState"
  have h1: "TestStore.answers (submitAnswer ''7'' 0 50 ?s) \<noteq> TestStore.answers ?s"
    by (simp add: submitAnswer_def startTest_def initialState_def questionAt_def)
  have h2: "TestStore.answers (submitAnswer ''7'' 0 1500 ?s) \<noteq> TestStore.answers ?s"
    by (simp add: submitAnswer_def startTest_def initialState_def questionAt_def)
  have st: "questionStartTime ?s = Some 100"
    by (simp add: startTest_def)
  from submitAnswer_responseTime [OF h1] submitAnswer_responseTime [OF h2] st h1
  show ?thesis by auto
qed

section \<open>Guards\<close>

text \<open>
  C7. \<open>submitAnswer\<close> with no current question or with no recorded
  \<open>questionStartTime\<close>, and \<open>completeTest\<close> with \<open>currentTestType\<close> null, are silent
  no-ops: the action returns normally and the state it leaves is the state it found,
  field for field (equality of the state records).
\<close>

theorem noop_guards:
  "(getCurrentQuestion s = None \<or> questionStartTime s = None
      \<longrightarrow> submitAnswer answer changes now s = s)
   \<and> (currentTestType s = None \<longrightarrow> completeTest s = s)"
  by (simp add: submitAnswer_def completeTest_def getCurrentQuestion_def split: option.splits)

theorem noop_guards_witness:
  "getCurrentQuestion initialState = None \<and> questionStartTime initialState = None
   \<and> currentTestType initialState = None
   \<and> submitAnswer ''7'' 0 1500 initialState = initialState
   \<and> completeTest initialState = initialState
   \<and> getCurrentQuestion (startTest mental_arithmetic [] 1000 initialState) = None
   \<and> submitAnswer ''7'' 0 1500 (startTest mental_arithmetic [] 1000 initialState)
       = startTest mental_arithmetic [] 1000 initialState"
proof -
  have h: "getCurrentQuestion initialState = None" "questionStartTime initialState = None"
      "currentTestType initialState = None"
      "getCurrentQuestion (startTest mental_arithmetic [] 1000 initialState) = None"
    by (simp_all add: getCurrentQuestion_def questionAt_def initialState_def startTest_def)
  from h noop_guards [of initialState "''7''" 0 1500]
    noop_guards [of "startTest mental_arithmetic [] 1000 initialState" "''7''" 0 1500]
  show ?thesis by simp
qed

section \<open>Completing a test\<close>

text \<open>
  C4. With \<open>currentTestType\<close> non-null, \<open>completeTest\<close> appends exactly one
  \<open>TestResult\<close> at the end of \<open>testResults\<close>, with \<open>testType = currentTestType\<close>,
  \<open>totalQuestions = len(questions)\<close>, \<open>correctAnswers\<close> the number of answers with
  \<open>correct\<close>, \<open>avgResponseTime\<close> the arithmetic mean of \<open>responseTimeMs\<close> over the
  answers (0 if there are none) and the full answer list; it clears \<open>currentTestType\<close>,
  \<open>questions\<close>, \<open>currentQuestionIndex\<close>, \<open>answers\<close> and \<open>questionStartTime\<close>, and every
  other field (\<open>testResults\<close>' earlier entries, \<open>riskAssessment\<close>) survives. Prior
  results are never overwritten: running N modules, each a \<open>startTest\<close>, any in-test
  calls and a \<open>completeTest\<close>, leaves the earlier results in place and adds N results
  whose \<open>testType\<close>s are those of the N \<open>startTest\<close> calls in order.
\<close>

theorem completeTest_appends:
  "(currentTestType s = Some tt \<longrightarrow>
      completeTest s =
        s\<lparr> testResults := testResults s @
             [\<lparr> testType = tt, totalQuestions = length (questions s),
                correctAnswers = length (filter correct (TestStore.answers s)),
                avgResponseTime =
                  (if TestStore.answers s = [] then 0
                   else rat_of_int (sum_list (map responseTimeMs (TestStore.answers s)))
                        / rat_of_nat (length (TestStore.answers s))),
                answers = TestStore.answers s \<rparr>],
           currentTestType := None, questions := [], currentQuestionIndex := 0,
           TestStore.answers := [], questionStartTime := None \<rparr>
      \<and> riskAssessment (completeTest s) = riskAssessment s
      \<and> butlast (testResults (completeTest s)) = testResults s)
   \<and> ((\<forall>m\<in>set ms. \<forall>c\<in>set (moduleInTestOps m). inTestOp c) \<longrightarrow>
        length (testResults (run (concat (map moduleOps ms)) s0))
          = length (testResults s0) + length ms
        \<and> take (length (testResults s0)) (testResults (run (concat (map moduleOps ms)) s0))
            = testResults s0
        \<and> map TestResult.testType
              (drop (length (testResults s0)) (testResults (run (concat (map moduleOps ms)) s0)))
            = map fst ms)"
proof (intro conjI impI)
  assume tt: "currentTestType s = Some tt"
  show "completeTest s =
        s\<lparr> testResults := testResults s @
             [\<lparr> testType = tt, totalQuestions = length (questions s),
                correctAnswers = length (filter correct (TestStore.answers s)),
                avgResponseTime =
                  (if TestStore.answers s = [] then 0
                   else rat_of_int (sum_list (map responseTimeMs (TestStore.answers s)))
                        / rat_of_nat (length (TestStore.answers s))),
                answers = TestStore.answers s \<rparr>],
           currentTestType := None, questions := [], currentQuestionIndex := 0,
           TestStore.answers := [], questionStartTime := None \<rparr>"
    by (rule completeTest_Some [OF tt])
  show "riskAssessment (completeTest s) = riskAssessment s"
    by (simp add: completeTest_Some [OF tt])
  show "butlast (testResults (completeTest s)) = testResults s"
    by (simp add: completeTest_Some [OF tt])
next
  assume "\<forall>m\<in>set ms. \<forall>c\<in>set (moduleInTestOps m). inTestOp c"
  from run_modules [OF this, of s0]
  obtain new where new:
      "testResults (run (concat (map moduleOps ms)) s0) = testResults s0 @ new"
      "map TestResult.testType new = map fst ms"
    by blast
  from new(2) have len: "length new = length ms"
    by (metis length_map)
  show "length (testResults (run (concat (map moduleOps ms)) s0))
          = length (testResults s0) + length ms"
    by (simp add: new(1) len)
  show "take (length (testResults s0)) (testResults (run (concat (map moduleOps ms)) s0))
            = testResults s0"
    by (simp add: new(1))
  show "map TestResult.testType
              (drop (length (testResults s0)) (testResults (run (concat (map moduleOps ms)) s0)))
            = map fst ms"
    by (simp add: new)
qed

theorem completeTest_appends_witness:
  "currentTestType (submitAnswer ''7'' 0 1500 (startTest mental_arithmetic [ma_1] 1000 initialState))
     = Some mental_arithmetic
   \<and> testResults (completeTest
         (submitAnswer ''7'' 0 1500 (startTest mental_arithmetic [ma_1] 1000 initialState)))
       = [\<lparr> testType = mental_arithmetic, totalQuestions = 1, correctAnswers = 1,
             avgResponseTime = 500,
             answers = [\<lparr> questionId = ''ma_1'', selectedAnswer = ''7'', responseTimeMs = 500,
                          answerChanges = 0, correct = True \<rparr>] \<rparr>]
   \<and> list_all inTestOp (concat (map moduleInTestOps twoModules))
   \<and> length (testResults (run (concat (map moduleOps twoModules)) initialState)) = 2
   \<and> map TestResult.testType (testResults (run (concat (map moduleOps twoModules)) initialState))
       = [number_comparison, mental_arithmetic]"
proof -
  let ?s = "submitAnswer ''7'' 0 1500 (startTest mental_arithmetic [ma_1] 1000 initialState)"
  have s: "?s = \<lparr> sessionId = None, ageGroup = None, currentTestType = Some mental_arithmetic,
        questions = [ma_1], currentQuestionIndex = 0,
        answers = [\<lparr> questionId = ''ma_1'', selectedAnswer = ''7'', responseTimeMs = 500,
                          answerChanges = 0, correct = True \<rparr>],
        testResults = [], riskAssessment = None, questionStartTime = Some 1000 \<rparr>"
    by (simp add: submitAnswer_def startTest_def initialState_def questionAt_def ma_1_def
        sampleQuestion_def)
  have h1: "currentTestType ?s = Some mental_arithmetic"
    by (simp add: s)
  have h2: "\<forall>m\<in>set twoModules. \<forall>c\<in>set (moduleInTestOps m). inTestOp c"
    by (simp add: twoModules_def)
  have t0: "testResults initialState = []"
    by (simp add: initialState_def)
  from completeTest_appends [of ?s mental_arithmetic twoModules initialState] h1 h2 t0
  show ?thesis
    by (simp add: s twoModules_def)
qed

section \<open>Progress\<close>

text \<open>
  C5. For a test started with K >= 1 questions, after in-test calls of which j < K are
  \<open>nextQuestion\<close> calls, \<open>getProgress\<close> is \<open>(j+1)/K * 100\<close>; \<open>nextQuestion\<close> with the
  cursor on the last question (index K - 1) changes nothing; \<open>getProgress\<close> is \<open>0\<close> when
  \<open>questions\<close> is empty and otherwise, in every state the store can reach from its
  initial state, a percentage in \<open>(0, 100]\<close>.
\<close>

theorem progress_after_nextQuestion:
  "((\<forall>c\<in>set cs. inTestOp c) \<and> 1 \<le> length qs \<and> length (filter isNextQuestion cs) < length qs
      \<longrightarrow> getProgress (run cs (startTest tt qs tstart s))
          = (rat_of_nat (length (filter isNextQuestion cs) + 1) / rat_of_nat (length qs)) * 100)
   \<and> (1 \<le> length (questions sl)
        \<and> int (currentQuestionIndex sl) = int (length (questions sl)) - 1
      \<longrightarrow> nextQuestion now sl = sl)
   \<and> (questions se = [] \<longrightarrow> getProgress se = 0)
   \<and> (questions (run ops initialState) \<noteq> [] \<longrightarrow>
        0 < getProgress (run ops initialState) \<and> getProgress (run ops initialState) \<le> 100)"
proof (intro conjI impI)
  assume a: "(\<forall>c\<in>set cs. inTestOp c) \<and> 1 \<le> length qs
             \<and> length (filter isNextQuestion cs) < length qs"
  let ?st = "startTest tt qs tstart s"
  have q: "questions (run cs ?st) = qs"
    using run_inTestOps_keep [of cs ?st] a by (simp add: startTest_def)
  have "currentQuestionIndex (run cs ?st)
          = currentQuestionIndex ?st + length (filter isNextQuestion cs)"
    using a by (intro run_inTestOps_index) (simp_all add: startTest_def)
  then have i: "currentQuestionIndex (run cs ?st) = length (filter isNextQuestion cs)"
    by (simp add: startTest_def)
  from a show "getProgress (run cs ?st)
          = (rat_of_nat (length (filter isNextQuestion cs) + 1) / rat_of_nat (length qs)) * 100"
    by (simp add: getProgress_def q i)
next
  assume "1 \<le> length (questions sl)
        \<and> int (currentQuestionIndex sl) = int (length (questions sl)) - 1"
  then show "nextQuestion now sl = sl"
    by (simp add: nextQuestion_def)
next
  assume "questions se = []"
  then show "getProgress se = 0"
    by (simp add: getProgress_def)
next
  assume ne: "questions (run ops initialState) \<noteq> []"
  with cursorInRange_reachable [of ops]
  have lt: "currentQuestionIndex (run ops initialState) < length (questions (run ops initialState))"
    by (simp add: cursorInRange_def)
  from getProgress_bounds [OF lt]
  show "0 < getProgress (run ops initialState)" and "getProgress (run ops initialState) \<le> 100"
    by simp_all
qed

theorem progress_after_nextQuestion_witness:
  "list_all inTestOp [SubmitAnswer ''7'' 0 1500, NextQuestion 2000]
   \<and> length (filter isNextQuestion [SubmitAnswer ''7'' 0 1500, NextQuestion 2000])
       < length [ma_1, ma_2]
   \<and> getProgress (startTest mental_arithmetic [ma_1, ma_2] 1000 initialState) = 50
   \<and> getProgress (run [SubmitAnswer ''7'' 0 1500, NextQuestion 2000]
                      (startTest mental_arithmetic [ma_1, ma_2] 1000 initialState)) = 100
   \<and> nextQuestion 2500 (run [SubmitAnswer ''7'' 0 1500, NextQuestion 2000]
                            (startTest mental_arithmetic [ma_1, ma_2] 1000 initialState))
       = run [SubmitAnswer ''7'' 0 1500, NextQuestion 2000]
           (startTest mental_arithmetic [ma_1, ma_2] 1000 initialState)
   \<and> questions initialState = [] \<and> getProgress initialState = 0
   \<and> questions (run [StartTest mental_arithmetic [ma_1, ma_2] 1000] initialState) \<noteq> []
   \<and> 0 < getProgress (run [StartTest mental_arithmetic [ma_1, ma_2] 1000] initialState)
   \<and> getProgress (run [StartTest mental_arithmetic [ma_1, ma_2] 1000] initialState) \<le> 100"
proof -
  let ?st = "startTest mental_arithmetic [ma_1, ma_2] 1000 initialState"
  let ?cs = "[SubmitAnswer ''7'' 0 1500, NextQuestion 2000]"
  have h1: "\<forall>c\<in>set ?cs. inTestOp c" "length (filter isNextQuestion ?cs) < length [ma_1, ma_2]"
      "length (filter isNextQuestion []) < length [ma_1, ma_2]"
    by simp_all
  have h2: "questions (run ?cs ?st) = [ma_1, ma_2]" "currentQuestionIndex (run ?cs ?st) = 1"
    by (simp_all add: submitAnswer_keeps nextQuestion_def startTest_def)
  have h3: "questions initialState = []"
    by (simp add: initialState_def)
  have h4: "questions (run [StartTest mental_arithmetic [ma_1, ma_2] 1000] initialState) \<noteq> []"
    by (simp add: startTest_def)
  from h1 h2 h3 h4
    progress_after_nextQuestion [where cs = "?cs" and qs = "[ma_1, ma_2]"
      and tt = mental_arithmetic and tstart = 1000 and s = initialState
      and sl = "run ?cs ?st" and now = 2500 and se = initialState
      and ops = "[StartTest mental_arithmetic [ma_1, ma_2] 1000]"]
    progress_after_nextQuestion [where cs = "[]" and qs = "[ma_1, ma_2]"
      and tt = mental_arithmetic and tstart = 1000 and s = initialState
      and sl = "run ?cs ?st" and now = 2500 and se = initialState
      and ops = "[StartTest mental_arithmetic [ma_1, ma_2] 1000]"]
  show ?thesis by simp
qed

section \<open>Completion\<close>

text \<open>
  C6. \<open>isTestComplete\<close> is true if and only if \<open>len(questions) > 0\<close> and
  \<open>len(answers) = len(questions)\<close>. For a test with K questions answered one
  \<open>submitAnswer\<close> call per question in order (answer, advance, answer, advance, ...),
  with clock readings that are not \<open>0\<close>: after the first n calls, which hold
  \<open>(n+1) div 2\<close> \<open>submitAnswer\<close> calls, \<open>isTestComplete\<close> is true exactly when the Kth
  \<open>submitAnswer\<close> call is among them, that is from call number \<open>2K - 1\<close> on; it is false
  before the Kth answer is submitted and true afterwards.
\<close>

theorem isTestComplete_in_order:
  "(isTestComplete s \<longleftrightarrow>
      length (questions s) > 0 \<and> length (TestStore.answers s) = length (questions s))
   \<and> length (filter isSubmitAnswer (take n (answerInOrder xs))) = min ((n + 1) div 2) (length xs)
   \<and> (length xs = length qs \<and> qs \<noteq> [] \<and> tstart \<noteq> 0
        \<and> list_all clockNonzero (answerInOrder xs) \<longrightarrow>
        (isTestComplete (run (take n (answerInOrder xs)) (startTest tt qs tstart sb))
           \<longleftrightarrow> length (filter isSubmitAnswer (take n (answerInOrder xs))) = length qs)
        \<and> (isTestComplete (run (take n (answerInOrder xs)) (startTest tt qs tstart sb))
           \<longleftrightarrow> 2 * length qs - 1 \<le> n))"
proof (intro conjI impI)
  show "isTestComplete s \<longleftrightarrow>
      length (questions s) > 0 \<and> length (TestStore.answers s) = length (questions s)"
    by (simp add: isTestComplete_def)
  show cnt: "length (filter isSubmitAnswer (take n (answerInOrder xs)))
           = min ((n + 1) div 2) (length xs)"
    by (rule answerInOrder_take_submits)
  assume a: "length xs = length qs \<and> qs \<noteq> [] \<and> tstart \<noteq> 0
        \<and> list_all clockNonzero (answerInOrder xs)"
  have i: "\<forall>c\<in>set (take n (answerInOrder xs)). inTestOp c"
    using answerInOrder_inTestOp [of xs] by (meson in_set_takeD)
  have z: "\<forall>c\<in>set (take n (answerInOrder xs)). clockNonzero c"
    using a by (meson in_set_takeD list_all_iff)
  from a have ne: "qs \<noteq> []" and t: "tstart \<noteq> 0" and len: "length xs = length qs"
    by simp_all
  show c: "isTestComplete (run (take n (answerInOrder xs)) (startTest tt qs tstart sb))
           \<longleftrightarrow> length (filter isSubmitAnswer (take n (answerInOrder xs))) = length qs"
    by (rule isTestComplete_counts_submits [OF i z ne t])
  have "0 < length qs" using ne by simp
  then have "min ((n + 1) div 2) (length qs) = length qs \<longleftrightarrow> 2 * length qs - 1 \<le> n"
    by (auto simp: min_def)
  with c show "isTestComplete (run (take n (answerInOrder xs)) (startTest tt qs tstart sb))
           \<longleftrightarrow> 2 * length qs - 1 \<le> n"
    by (simp add: cnt len)
qed

theorem isTestComplete_in_order_witness:
  "length [(''7'', 1500, 2000), (''5'', 2600, 3000 :: int)] = length [ma_1, ma_2]
   \<and> [ma_1, ma_2] \<noteq> [] \<and> (1000 :: int) \<noteq> 0
   \<and> list_all clockNonzero (answerInOrder [(''7'', 1500, 2000), (''5'', 2600, 3000)])
   \<and> \<not> isTestComplete (startTest mental_arithmetic [ma_1, ma_2] 1000 initialState)
   \<and> \<not> isTestComplete (run [SubmitAnswer ''7'' 0 1500]
           (startTest mental_arithmetic [ma_1, ma_2] 1000 initialState))
   \<and> \<not> isTestComplete (run [SubmitAnswer ''7'' 0 1500, NextQuestion 2000]
           (startTest mental_arithmetic [ma_1, ma_2] 1000 initialState))
   \<and> isTestComplete (run [SubmitAnswer ''7'' 0 1500, NextQuestion 2000, SubmitAnswer ''5'' 0 2600]
           (startTest mental_arithmetic [ma_1, ma_2] 1000 initialState))
   \<and> isTestComplete (run [SubmitAnswer ''7'' 0 1500, NextQuestion 2000, SubmitAnswer ''5'' 0 2600,
                          NextQuestion 3000]
           (startTest mental_arithmetic [ma_1, ma_2] 1000 initialState))"
proof -
  let ?xs = "[(''7'', 1500, 2000), (''5'', 2600, 3000 :: int)]"
  have h: "list_all clockNonzero (answerInOrder ?xs)"
    by simp
  have t: "take 0 (answerInOrder ?xs) = []"
      "take 1 (answerInOrder ?xs) = [SubmitAnswer ''7'' 0 1500]"
      "take 2 (answerInOrder ?xs) = [SubmitAnswer ''7'' 0 1500, NextQuestion 2000]"
      "take 3 (answerInOrder ?xs)
         = [SubmitAnswer ''7'' 0 1500, NextQuestion 2000, SubmitAnswer ''5'' 0 2600]"
      "take 4 (answerInOrder ?xs)
         = [SubmitAnswer ''7'' 0 1500, NextQuestion 2000, SubmitAnswer ''5'' 0 2600,
            NextQuestion 3000]"
    by (simp_all add: numeral_nat)
  note w = isTestComplete_in_order [where xs = ?xs and qs = "[ma_1, ma_2]" and tstart = 1000
      and tt = mental_arithmetic and sb = initialState and s = initialState]
  from h w [where n = 0] w [where n = 1] w [where n = 2] w [where n = 3] w [where n = 4]
  show ?thesis
    unfolding t by simp
qed

section \<open>Dashboard aggregates\<close>

text \<open>
  C8. The overall accuracy of a list of results is the sum of \<open>correctAnswers\<close> divided
  by the sum of \<open>totalQuestions\<close>, times 100, and \<open>0\<close> when the total question count is
  \<open>0\<close>; for results with (total, correct) pairs (5,4), (5,3), (5,4) it is
  \<open>11/15 * 100\<close>, which is 73.33...
\<close>

theorem overallAccuracy_value:
  "overallAccuracy rs =
     (if sum_list (map totalQuestions rs) = 0 then 0
      else rat_of_nat (sum_list (map correctAnswers rs))
           / rat_of_nat (sum_list (map totalQuestions rs)) * 100)
   \<and> (map (\<lambda>r. (totalQuestions r, correctAnswers r)) rs' = [(5, 4), (5, 3), (5, 4)] \<longrightarrow>
        overallAccuracy rs' = 11 / 15 * 100
        \<and> 7333 / 100 < overallAccuracy rs' \<and> overallAccuracy rs' < 7334 / 100)"
proof (intro conjI impI)
  show "overallAccuracy rs =
     (if sum_list (map totalQuestions rs) = 0 then 0
      else rat_of_nat (sum_list (map correctAnswers rs))
           / rat_of_nat (sum_list (map totalQuestions rs)) * 100)"
    by (simp add: overallAccuracy_def totals_sum_list)
next
  assume pairs: "map (\<lambda>r. (totalQuestions r, correctAnswers r)) rs' = [(5, 4), (5, 3), (5, 4)]"
  have "map totalQuestions rs' = map fst (map (\<lambda>r. (totalQuestions r, correctAnswers r)) rs')"
    by (simp add: comp_def)
  then have tq: "map totalQuestions rs' = [5, 5, 5]"
    by (simp add: pairs)
  have "map correctAnswers rs' = map snd (map (\<lambda>r. (totalQuestions r, correctAnswers r)) rs')"
    by (simp add: comp_def)
  then have ca: "map correctAnswers rs' = [4, 3, 4]"
    by (simp add: pairs)
  have v: "overallAccuracy rs' = 11 / 15 * 100"
    by (simp add: overallAccuracy_def totals_sum_list tq ca)
  then show "overallAccuracy rs' = 11 / 15 * 100" .
  from v show "7333 / 100 < overallAccuracy rs'" by simp
  from v show "overallAccuracy rs' < 7334 / 100" by simp
qed

theorem overallAccuracy_value_witness:
  "results [] True = demoResults
   \<and> map (\<lambda>r. (totalQuestions r, correctAnswers r)) demoResults = [(5, 4), (5, 3), (5, 4)]
   \<and> overallAccuracy demoResults = 220 / 3"
proof -
  have h: "map (\<lambda>r. (totalQuestions r, correctAnswers r)) demoResults = [(5, 4), (5, 3), (5, 4)]"
    by (simp add: demoResults_def)
  from overallAccuracy_value [of demoResults demoResults] h
  show ?thesis by (simp add: results_def)
qed

text \<open>
  C9. The overall average response time of a non-empty list of results is the mean of
  the results' \<open>avgResponseTime\<close> values: their sum divided by the number of results,
  not weighted by the modules' question counts (the displayed figure is this mean in
  seconds). For the two example modules, with 1 and 2 answers, it is the mean of the
  module means, 1750, and not the mean over all three answers, 2000.
\<close>

theorem overall_average_mean_of_means:
  "(rs \<noteq> [] \<longrightarrow>
      calculateRisk_avgResponseTime rs showDemo None False
        = Some (sum_list (map avgResponseTime rs) / rat_of_nat (length rs))
      \<and> avgTime rs = (sum_list (map avgResponseTime rs) / rat_of_nat (length rs)) / 1000)
   \<and> map (\<lambda>r. length (TestResult.answers r)) twoModulesResults = [1, 2]
   \<and> calculateRisk_avgResponseTime twoModulesResults False None False = Some 1750
   \<and> meanOverAllAnswers twoModulesResults = 2000
   \<and> calculateRisk_avgResponseTime twoModulesResults False None False
       \<noteq> Some (meanOverAllAnswers twoModulesResults)"
proof (intro conjI impI)
  assume ne: "rs \<noteq> []"
  then show "calculateRisk_avgResponseTime rs showDemo None False
        = Some (sum_list (map avgResponseTime rs) / rat_of_nat (length rs))"
    by (simp add: calculateRisk_avgResponseTime_def results_def foldl_plus_sum_list)
  from ne show "avgTime rs = (sum_list (map avgResponseTime rs) / rat_of_nat (length rs)) / 1000"
    by (simp add: avgTime_def foldl_plus_sum_list)
next
  show "map (\<lambda>r. length (TestResult.answers r)) twoModulesResults = [1, 2]"
    by (simp add: twoModulesResults_value)
  show "calculateRisk_avgResponseTime twoModulesResults False None False = Some 1750"
    by (simp add: twoModulesResults_value calculateRisk_avgResponseTime_def results_def)
  show "meanOverAllAnswers twoModulesResults = 2000"
    by (simp add: twoModulesResults_value meanOverAllAnswers_def allAnswers_def)
  show "calculateRisk_avgResponseTime twoModulesResults False None False
       \<noteq> Some (meanOverAllAnswers twoModulesResults)"
    by (simp add: twoModulesResults_value calculateRisk_avgResponseTime_def results_def
        meanOverAllAnswers_def allAnswers_def)
qed

theorem overall_average_mean_of_means_witness:
  "demoResults \<noteq> []
   \<and> calculateRisk_avgResponseTime demoResults False None False
       = Some ((4500 + 6200 + 5100) / 3)
   \<and> avgTime demoResults = 79 / 15"
proof -
  have h: "demoResults \<noteq> []"
    by (simp add: demoResults_def)
  have l: "length demoResults = 3" "map avgResponseTime demoResults = [4500, 6200, 5100]"
    by (simp_all add: demoResults_def)
  from overall_average_mean_of_means [of demoResults False] h l
  show ?thesis by simp
qed

section \<open>Reachable states\<close>

text \<open>
  C10. In every state reached from the initial state by any sequence of the eight
  actions, \<open>currentQuestionIndex\<close> is \<open>0\<close> when \<open>questions\<close> is empty and lies between
  \<open>0\<close> and \<open>len(questions) - 1\<close> otherwise; so \<open>getCurrentQuestion\<close> returns a question
  whenever \<open>questions\<close> is non-empty, and \<open>getProgress\<close> never exceeds 100.
\<close>

theorem cursor_in_range:
  "(questions (run cs initialState) = [] \<longrightarrow> currentQuestionIndex (run cs initialState) = 0)
   \<and> (questions (run cs initialState) \<noteq> [] \<longrightarrow>
        0 \<le> int (currentQuestionIndex (run cs initialState))
        \<and> int (currentQuestionIndex (run cs initialState))
            \<le> int (length (questions (run cs initialState))) - 1
        \<and> getCurrentQuestion (run cs initialState)
            = Some (questions (run cs initialState) ! currentQuestionIndex (run cs initialState)))
   \<and> getProgress (run cs initialState) \<le> 100"
proof -
  let ?s = "run cs initialState"
  have inv: "cursorInRange ?s" by (rule cursorInRange_reachable)
  show ?thesis
  proof (cases "questions ?s = []")
    case True
    with inv show ?thesis
      by (simp add: cursorInRange_def getProgress_def)
  next
    case False
    with inv have lt: "currentQuestionIndex ?s < length (questions ?s)"
      by (simp add: cursorInRange_def)
    with False getProgress_bounds(2) [OF lt] show ?thesis
      by (simp add: getCurrentQuestion_def questionAt_def)
  qed
qed

theorem cursor_in_range_witness:
  "questions (run sampleOps initialState) \<noteq> []
   \<and> currentQuestionIndex (run sampleOps initialState) = 1
   \<and> getCurrentQuestion (run sampleOps initialState) = Some ma_2
   \<and> getProgress (run sampleOps initialState) \<le> 100
   \<and> questions (run (sampleOps @ [CompleteTest]) initialState) = []
   \<and> currentQuestionIndex (run (sampleOps @ [CompleteTest]) initialState) = 0"
proof -
  have q: "questions (run sampleOps initialState) = [ma_1, ma_2]"
    and i: "currentQuestionIndex (run sampleOps initialState) = 1"
    and tt: "currentTestType (run sampleOps initialState) = Some mental_arithmetic"
    by (simp_all add: sampleOps_def submitAnswer_keeps nextQuestion_def startTest_def
        setAgeGroup_def setSessionId_def)
  have e: "questions (run (sampleOps @ [CompleteTest]) initialState) = []"
    by (simp add: run_append completeTest_Some [OF tt])
  from q i e cursor_in_range [of sampleOps] cursor_in_range [of "sampleOps @ [CompleteTest]"]
  show ?thesis by simp
qed

end
